theory Spec2Isabelle
  imports Complex_Main "HOL-Library.Product_Lexorder"
begin

section \<open>StockFlow: low-stock alerts, money parsing and product creation\<close>

text \<open>
  A shallow embedding of \<^verbatim>\<open>src/routes/alerts.py\<close>, \<^verbatim>\<open>src/utils/money.py\<close> and
  \<^verbatim>\<open>src/routes/products.py\<close>.

  Conventions of the embedding.
  \<^item> A table of the relational store is the list of its rows, in the order in which an
    unordered \<^verbatim>\<open>SELECT\<close> returns them.
  \<^item> \<^verbatim>\<open>models.py\<close> is not among the sources. The columns are typed as the data model of
    the specification describes them; a column that the routes guard against being absent
    (a quantity, a summed \<^verbatim>\<open>qty\<close>, a default threshold, a product type id, the warehouse
    of a threshold override) is an \<open>option\<close>.
  \<^item> A Python \<^verbatim>\<open>float\<close> is an exact rational number: the embedding models the order and
    the arithmetic of the values, not their binary rounding.
  \<^item> A Python exception is a value of \<open>py_error\<close>; a function that can raise returns a sum
    with the error on the left.
\<close>

subsection \<open>Errors\<close>

datatype py_error =
  ValueError | TypeError | ZeroDivisionError | OverflowError | InvalidOperation
  | IntegrityError | MultipleResultsFound


subsection \<open>Python values and strings\<close>

text \<open>
  \<^verbatim>\<open>int(s)\<close> on a string, for ASCII input: surrounding whitespace is dropped, one sign
  is allowed, and the rest is a non-empty run of decimal digits in which single
  underscores may separate digits. Anything else raises \<^verbatim>\<open>ValueError\<close>.
\<close>

definition is_space :: "char \<Rightarrow> bool" where
  "is_space c = (let n = (of_char c :: nat) in (9 \<le> n \<and> n \<le> 13) \<or> (28 \<le> n \<and> n \<le> 32))"

definition strip :: "string \<Rightarrow> string" where
  "strip s = rev (dropWhile is_space (rev (dropWhile is_space s)))"

definition digit_val :: "char \<Rightarrow> nat option" where
  "digit_val c = (let n = (of_char c :: nat) in if 48 \<le> n \<and> n \<le> 57 then Some (n - 48) else None)"

fun digits_value :: "nat \<Rightarrow> string \<Rightarrow> nat option" where
  "digits_value acc [] = Some acc"
| "digits_value acc [c] =
     (case digit_val c of None \<Rightarrow> None | Some v \<Rightarrow> Some (10 * acc + v))"
| "digits_value acc (c # d # ds) =
     (if c = CHR ''_'' then
        (case digit_val d of None \<Rightarrow> None | Some v \<Rightarrow> digits_value (10 * acc + v) ds)
      else
        (case digit_val c of None \<Rightarrow> None | Some v \<Rightarrow> digits_value (10 * acc + v) (d # ds)))"

definition py_digits :: "string \<Rightarrow> nat option" where
  "py_digits s =
     (case s of
        [] \<Rightarrow> None
      | c # cs \<Rightarrow> (case digit_val c of None \<Rightarrow> None | Some v \<Rightarrow> digits_value v cs))"

definition py_int :: "string \<Rightarrow> py_error + int" where
  "py_int s =
     (let t = strip s;
          neg = (case t of [] \<Rightarrow> False | c # _ \<Rightarrow> c = CHR ''-'');
          body = (case t of [] \<Rightarrow> [] | c # cs \<Rightarrow> if c = CHR ''-'' \<or> c = CHR ''+'' then cs else t)
      in case py_digits body of
           None \<Rightarrow> Inl ValueError
         | Some n \<Rightarrow> Inr (if neg then - int n else int n))"


text \<open>
  The values a JSON body or a query string can hand to the routes, and \<^verbatim>\<open>str\<close> and
  \<^verbatim>\<open>int\<close> on them. JSON floats are outside the embedding.
\<close>

datatype py_value = PyNone | PyBool bool | PyInt int | PyStr string

function nat_str :: "nat \<Rightarrow> string" where
  "nat_str n = (if n < 10 then [char_of (48 + n)] else nat_str (n div 10) @ [char_of (48 + n mod 10)])"
  by pat_completeness auto
termination
  by (relation "measure (\<lambda>n. n)") auto

declare nat_str.simps [simp del]

definition py_str :: "py_value \<Rightarrow> string" where
  "py_str v =
     (case v of
        PyNone \<Rightarrow> ''None''
      | PyBool b \<Rightarrow> (if b then ''True'' else ''False'')
      | PyInt i \<Rightarrow> (if i < 0 then CHR ''-'' # nat_str (nat (- i)) else nat_str (nat i))
      | PyStr s \<Rightarrow> s)"

definition py_int_of :: "py_value \<Rightarrow> py_error + int" where
  "py_int_of v =
     (case v of
        PyNone \<Rightarrow> Inl TypeError
      | PyBool b \<Rightarrow> Inr (if b then 1 else 0)
      | PyInt i \<Rightarrow> Inr i
      | PyStr s \<Rightarrow> py_int s)"

subsection \<open>Money: \<^verbatim>\<open>as_money\<close>\<close>

text \<open>
  The \<^verbatim>\<open>decimal\<close> module of the Python library, as far as \<^verbatim>\<open>as_money\<close> uses it, for
  ASCII input. A finite decimal is a sign (\<open>True\<close> for negative), a coefficient and an
  exponent: its value is the coefficient times ten to the exponent. A NaN carries a sign
  and a payload.
\<close>

datatype decimal = Finite bool nat int | Infinity bool | QNaN bool nat | SNaN bool nat

definition is_digit :: "char \<Rightarrow> bool" where
  "is_digit c = (digit_val c \<noteq> None)"

definition digits_nat :: "string \<Rightarrow> nat" where
  "digits_nat s = fold (\<lambda>c n. 10 * n + (case digit_val c of None \<Rightarrow> 0 | Some v \<Rightarrow> v)) s 0"

definition lower :: "char \<Rightarrow> char" where
  "lower c = (let n = (of_char c :: nat) in if 65 \<le> n \<and> n \<le> 90 then char_of (n + 32) else c)"

text \<open>The exponent part of a numeric string: empty, or \<^verbatim>\<open>E\<close>, an optional sign and digits.\<close>

definition parse_exponent :: "string \<Rightarrow> int option" where
  "parse_exponent s =
     (case s of
        [] \<Rightarrow> Some 0
      | c # t \<Rightarrow>
          if c \<noteq> CHR ''e'' then None
          else (let neg = (case t of [] \<Rightarrow> False | x # _ \<Rightarrow> x = CHR ''-'');
                    ds = (case t of [] \<Rightarrow> [] | x # xs \<Rightarrow> if x = CHR ''-'' \<or> x = CHR ''+'' then xs else t)
                in if ds \<noteq> [] \<and> list_all is_digit ds
                   then Some (if neg then - int (digits_nat ds) else int (digits_nat ds))
                   else None))"

text \<open>
  The body of a numeric string after its sign, already in lower case: a number with at
  least one digit, an infinity, or a NaN with its payload.
\<close>

definition parse_body :: "bool \<Rightarrow> string \<Rightarrow> decimal option" where
  "parse_body sign s =
     (if s = ''inf'' \<or> s = ''infinity'' then Some (Infinity sign)
      else if take 3 s = ''nan'' \<and> list_all is_digit (drop 3 s) then Some (QNaN sign (digits_nat (drop 3 s)))
      else if take 4 s = ''snan'' \<and> list_all is_digit (drop 4 s) then Some (SNaN sign (digits_nat (drop 4 s)))
      else
        (let intpart = takeWhile is_digit s;
             r1 = dropWhile is_digit s;
             fracpart = (case r1 of [] \<Rightarrow> [] | c # t \<Rightarrow> if c = CHR ''.'' then takeWhile is_digit t else []);
             r2 = (case r1 of [] \<Rightarrow> [] | c # t \<Rightarrow> if c = CHR ''.'' then dropWhile is_digit t else r1)
         in if intpart = [] \<and> fracpart = [] then None
            else (case parse_exponent r2 of
                    None \<Rightarrow> None
                  | Some ex \<Rightarrow> Some (Finite sign (digits_nat (intpart @ fracpart)) (ex - int (length fracpart))))))"

text \<open>\<^verbatim>\<open>Decimal(s)\<close>: \<open>None\<close> stands for the \<^verbatim>\<open>InvalidOperation\<close> of a string that is no number.\<close>

definition decimal_of_string :: "string \<Rightarrow> decimal option" where
  "decimal_of_string s =
     (let t = map lower (filter (\<lambda>c. c \<noteq> CHR ''_'') (strip s));
          sign = (case t of [] \<Rightarrow> False | c # _ \<Rightarrow> c = CHR ''-'');
          body = (case t of [] \<Rightarrow> [] | c # cs \<Rightarrow> if c = CHR ''-'' \<or> c = CHR ''+'' then cs else t)
      in parse_body sign body)"

function ndigits :: "nat \<Rightarrow> nat" where
  "ndigits n = (if n < 10 then 1 else Suc (ndigits (n div 10)))"
  by pat_completeness auto
termination
  by (relation "measure (\<lambda>n. n)") auto

declare ndigits.simps [simp del]

text \<open>
  Rescaling a non-zero coefficient to the exponent \<open>-2\<close> under \<^verbatim>\<open>ROUND_HALF_UP\<close>: zeros are
  appended, or the digits beyond the second fractional one are dropped and the rest is
  incremented when the first dropped digit is 5 or more.
\<close>

definition rescale_cents :: "nat \<Rightarrow> int \<Rightarrow> nat" where
  "rescale_cents c e =
     (if - 2 \<le> e then c * 10 ^ nat (e + 2)
      else (let k = nat (- 2 - e) in (c + 5 * 10 ^ (k - 1)) div 10 ^ k))"

text \<open>
  \<^verbatim>\<open>d.quantize(Decimal("0.01"), rounding=ROUND_HALF_UP)\<close> in a context of precision 28
  with the largest exponent 999999.
\<close>

definition quantize_cents :: "decimal \<Rightarrow> py_error + decimal" where
  "quantize_cents d =
     (case d of
        SNaN s p \<Rightarrow> Inl InvalidOperation
      | QNaN s p \<Rightarrow> Inr (QNaN s (p mod 10 ^ 28))
      | Infinity s \<Rightarrow> Inl InvalidOperation
      | Finite s c e \<Rightarrow>
          if c = 0 then Inr (Finite s 0 (- 2))
          else (let adjusted = e + int (ndigits c) - 1
                in if 999999 < adjusted then Inl InvalidOperation
                   else if 28 < adjusted + 2 + 1 then Inl InvalidOperation
                   else (let c' = rescale_cents c e
                         in if 28 < ndigits c' then Inl InvalidOperation
                            else Inr (Finite s c' (- 2)))))"

definition as_money :: "py_value \<Rightarrow> py_error + decimal" where
  "as_money val =
     (case (case decimal_of_string (py_str val) of
              None \<Rightarrow> Inl InvalidOperation
            | Some d \<Rightarrow> quantize_cents d) of
        Inl err \<Rightarrow> (if err = InvalidOperation \<or> err = TypeError then Inl ValueError else Inl err)
      | Inr m \<Rightarrow> Inr m)"

subsection \<open>Data model\<close>

record warehouse =
  wh_id :: int
  wh_company_id :: int
  wh_name :: string

record product =
  p_id :: int
  p_name :: string
  p_sku :: string
  p_price :: decimal
  p_product_type_id :: "int option"

record product_type =
  pt_id :: int
  pt_default_low_stock_threshold :: "rat option"

record inventory =
  inv_product_id :: int
  inv_warehouse_id :: int
  inv_quantity :: "rat option"

record product_threshold =
  pth_company_id :: int
  pth_product_id :: int
  pth_warehouse_id :: "int option"
  pth_threshold :: rat

record sales_order =
  o_id :: int
  o_company_id :: int
  o_created_at :: rat
  o_status :: string

record order_line =
  ol_order_id :: int
  ol_product_id :: int
  ol_warehouse_id :: int
  ol_qty :: "rat option"

record supplier =
  s_id :: int
  s_name :: string
  s_contact_email :: string

record product_supplier =
  ps_company_id :: int
  ps_product_id :: int
  ps_supplier_id :: int
  ps_preferred :: bool
  ps_lead_time_days :: int

record database =
  db_warehouses :: "warehouse list"
  db_products :: "product list"
  db_product_types :: "product_type list"
  db_inventory :: "inventory list"
  db_product_thresholds :: "product_threshold list"
  db_orders :: "sales_order list"
  db_order_lines :: "order_line list"
  db_suppliers :: "supplier list"
  db_product_suppliers :: "product_supplier list"

subsection \<open>Query helpers\<close>

text \<open>\<^verbatim>\<open>.limit(1) ... .scalar_one_or_none()\<close>: the first row of the result, if any.\<close>

definition scalar_one_or_none :: "'a list \<Rightarrow> 'a option" where
  "scalar_one_or_none rows = (case rows of [] \<Rightarrow> None | r # _ \<Rightarrow> Some r)"

text \<open>SQL \<^verbatim>\<open>SUM\<close> over a nullable column: nulls are ignored, and the sum of no value is null.\<close>

definition sql_sum :: "rat option list \<Rightarrow> rat option" where
  "sql_sum vs =
     (case List.map_filter (\<lambda>v. v) vs of [] \<Rightarrow> None | x # xs \<Rightarrow> Some (sum_list (x # xs)))"

definition coalesce :: "'a option \<Rightarrow> 'a \<Rightarrow> 'a" where
  "coalesce v d = (case v of None \<Rightarrow> d | Some x \<Rightarrow> x)"

text \<open>
  What the scalar query of \<^verbatim>\<open>_ads\<close> can hand to \<^verbatim>\<open>float(...)\<close>: a number, which
  \<^verbatim>\<open>float\<close> converts, or a null, on which it raises \<^verbatim>\<open>TypeError\<close>.
\<close>

datatype sql_scalar = SqlNum rat | SqlNull

fun py_float :: "sql_scalar \<Rightarrow> py_error + rat" where
  "py_float (SqlNum x) = Inr x"
| "py_float SqlNull = Inl TypeError"

text \<open>
  \<^verbatim>\<open>float / int\<close>: the integer is converted to a float first, which raises
  \<^verbatim>\<open>OverflowError\<close> for an integer that rounds to \<open>2 ^ 1024\<close> or beyond; then a zero
  divisor raises \<^verbatim>\<open>ZeroDivisionError\<close>.
\<close>

definition float_range :: int where
  "float_range = 2 ^ 1024 - 2 ^ 970"

definition float_of_int :: "int \<Rightarrow> py_error + rat" where
  "float_of_int n = (if float_range \<le> \<bar>n\<bar> then Inl OverflowError else Inr (of_int n))"

definition py_truediv :: "rat \<Rightarrow> int \<Rightarrow> py_error + rat" where
  "py_truediv a n =
     (case float_of_int n of
        Inl err \<Rightarrow> Inl err
      | Inr b \<Rightarrow> if b = 0 then Inl ZeroDivisionError else Inr (a / b))"

subsection \<open>Average daily sales: \<^verbatim>\<open>_ads\<close>\<close>

definition ads_orders :: "database \<Rightarrow> int \<Rightarrow> rat \<Rightarrow> int list" where
  "ads_orders db company_id since_dt =
     map o_id (filter (\<lambda>ord. o_company_id ord = company_id \<and> since_dt \<le> o_created_at ord
                             \<and> o_status ord \<in> set [''shipped'', ''completed''])
                      (db_orders db))"

definition ads_lines :: "database \<Rightarrow> int \<Rightarrow> int \<Rightarrow> int \<Rightarrow> rat \<Rightarrow> order_line list" where
  "ads_lines db company_id product_id warehouse_id since_dt =
     filter (\<lambda>l. ol_order_id l \<in> set (ads_orders db company_id since_dt)
                 \<and> ol_product_id l = product_id \<and> ol_warehouse_id l = warehouse_id)
            (db_order_lines db)"

definition ads_total :: "database \<Rightarrow> int \<Rightarrow> int \<Rightarrow> int \<Rightarrow> rat \<Rightarrow> sql_scalar" where
  "ads_total db company_id product_id warehouse_id since_dt =
     SqlNum (coalesce (sql_sum (map ol_qty (ads_lines db company_id product_id warehouse_id since_dt))) 0)"

text \<open>The part of \<^verbatim>\<open>_ads\<close> after the query: \<^verbatim>\<open>float\<close> with its fallback, then the division.\<close>

definition ads_of_total :: "sql_scalar \<Rightarrow> int \<Rightarrow> py_error + rat" where
  "ads_of_total tot lookback_days =
     (let tot' = (case py_float tot of Inl e \<Rightarrow> 0 | Inr t \<Rightarrow> t)
      in py_truediv tot' (max lookback_days 1))"

definition ads :: "database \<Rightarrow> int \<Rightarrow> int \<Rightarrow> int \<Rightarrow> rat \<Rightarrow> int \<Rightarrow> py_error + rat" where
  "ads db company_id product_id warehouse_id since_dt lookback_days =
     ads_of_total (ads_total db company_id product_id warehouse_id since_dt) lookback_days"

subsection \<open>Threshold resolution: \<^verbatim>\<open>_threshold\<close>\<close>

definition threshold :: "database \<Rightarrow> int \<Rightarrow> product \<Rightarrow> int \<Rightarrow> rat" where
  "threshold db company_id p warehouse_id =
     (case scalar_one_or_none
             (map pth_threshold
               (filter (\<lambda>t. pth_company_id t = company_id \<and> pth_product_id t = p_id p
                            \<and> pth_warehouse_id t = Some warehouse_id)
                       (db_product_thresholds db))) of
        Some t_wh \<Rightarrow> t_wh
      | None \<Rightarrow>
        (case scalar_one_or_none
               (map pth_threshold
                 (filter (\<lambda>t. pth_company_id t = company_id \<and> pth_product_id t = p_id p
                              \<and> pth_warehouse_id t = None)
                         (db_product_thresholds db))) of
           Some t_prod \<Rightarrow> t_prod
         | None \<Rightarrow>
           (case p_product_type_id p of
              None \<Rightarrow> 0
            | Some tid \<Rightarrow>
                if tid = 0 then 0
                else (case scalar_one_or_none
                             (map pt_default_low_stock_threshold
                                  (filter (\<lambda>ty. pt_id ty = tid) (db_product_types db))) of
                        Some (Some t_def) \<Rightarrow> t_def
                      | _ \<Rightarrow> 0))))"

subsection \<open>Supplier selection: \<^verbatim>\<open>_best_supplier\<close>\<close>

text \<open>
  \<^verbatim>\<open>ORDER BY lead_time_days ASC, supplier_id ASC\<close> is a sort on the pair of the two
  columns, in the lexicographic order of pairs.
\<close>

definition supplier_order :: "product_supplier list \<Rightarrow> product_supplier list" where
  "supplier_order links = sort_key (\<lambda>l. (ps_lead_time_days l, ps_supplier_id l)) links"

definition session_get_supplier :: "database \<Rightarrow> int \<Rightarrow> supplier option" where
  "session_get_supplier db sid =
     scalar_one_or_none (filter (\<lambda>s. s_id s = sid) (db_suppliers db))"

definition preferred_links :: "database \<Rightarrow> int \<Rightarrow> int \<Rightarrow> product_supplier list" where
  "preferred_links db company_id product_id =
     filter (\<lambda>l. ps_company_id l = company_id \<and> ps_product_id l = product_id \<and> ps_preferred l)
            (db_product_suppliers db)"

definition all_links :: "database \<Rightarrow> int \<Rightarrow> int \<Rightarrow> product_supplier list" where
  "all_links db company_id product_id =
     filter (\<lambda>l. ps_company_id l = company_id \<and> ps_product_id l = product_id)
            (db_product_suppliers db)"

definition best_supplier_id :: "database \<Rightarrow> int \<Rightarrow> int \<Rightarrow> int option" where
  "best_supplier_id db company_id product_id =
     (let pref = scalar_one_or_none
                   (map ps_supplier_id (supplier_order (preferred_links db company_id product_id)))
      in case pref of
           Some sid \<Rightarrow> Some sid
         | None \<Rightarrow> scalar_one_or_none
                     (map ps_supplier_id (supplier_order (all_links db company_id product_id))))"

definition best_supplier :: "database \<Rightarrow> int \<Rightarrow> int \<Rightarrow> supplier option" where
  "best_supplier db company_id product_id =
     (case best_supplier_id db company_id product_id of
        Some sid \<Rightarrow> session_get_supplier db sid
      | None \<Rightarrow> None)"

subsection \<open>Request parameters\<close>

text \<open>\<^verbatim>\<open>int(request.args.get(name, default))\<close>\<close>

definition int_arg :: "string option \<Rightarrow> int \<Rightarrow> py_error + int" where
  "int_arg a dflt = (case a of None \<Rightarrow> Inr dflt | Some s \<Rightarrow> py_int s)"

record alert_args =
  arg_lookback_days :: "string option"
  arg_limit :: "string option"
  arg_warehouse_id :: "string option"
  arg_debug :: "string option"

text \<open>
  \<^verbatim>\<open>datetime.utcnow() - timedelta(days=lookback_days)\<close>. Time is counted in days since
  0001-01-01; \<^verbatim>\<open>timedelta\<close> takes at most 999999999 days in either direction and a
  \<^verbatim>\<open>datetime\<close> lies between the years 1 and 9999, beyond which both raise
  \<^verbatim>\<open>OverflowError\<close>.
\<close>

definition since_of :: "rat \<Rightarrow> int \<Rightarrow> py_error + rat" where
  "since_of now lookback_days =
     (if lookback_days < - 999999999 \<or> 999999999 < lookback_days then Inl OverflowError
      else let s = now - of_int lookback_days
           in if s < 0 \<or> 3652059 \<le> s then Inl OverflowError else Inr s)"

subsection \<open>The alert scan\<close>

record alert =
  a_product_id :: int
  a_product_name :: string
  a_sku :: string
  a_warehouse_id :: int
  a_warehouse_name :: string
  a_current_stock :: rat
  a_threshold :: rat
  a_days_until_stockout :: "rat option"
  a_supplier :: "supplier option"

record debug_row =
  d_sku :: string
  d_product_id :: int
  d_warehouse_id :: int
  d_warehouse_name :: string
  d_stock :: rat
  d_threshold :: rat
  d_ads :: rat
  d_decision :: string
  d_reason_if_skip :: "string list"

record alert_report =
  r_alerts :: "alert list"
  r_total_alerts :: nat
  r_debug :: "debug_row list option"

datatype response = Ok200 alert_report | BadRequest400 string | Unhandled py_error

type_synonym inv_row = "int \<times> int \<times> rat option"

text \<open>The inventory of the company, joined with its warehouses; the warehouse filter is
  applied when \<^verbatim>\<open>target_warehouse\<close> is truthy.\<close>

definition inv_rows :: "database \<Rightarrow> int \<Rightarrow> int option \<Rightarrow> inv_row list" where
  "inv_rows db company_id target_warehouse =
     (let joined =
            concat (map (\<lambda>i. map (\<lambda>w. (inv_product_id i, inv_warehouse_id i, inv_quantity i))
                                  (filter (\<lambda>w. wh_id w = inv_warehouse_id i \<and> wh_company_id w = company_id)
                                          (db_warehouses db)))
                        (db_inventory db))
      in case target_warehouse of
           None \<Rightarrow> joined
         | Some t \<Rightarrow> if t \<noteq> 0 then filter (\<lambda>(pid, wid, qty). wid = t) joined else joined)"

text \<open>\<^verbatim>\<open>{x.id: x for x in rows}\<close>: a later row replaces an earlier one with the same key.\<close>

definition dict_by :: "('a \<Rightarrow> int) \<Rightarrow> 'a list \<Rightarrow> (int \<rightharpoonup> 'a)" where
  "dict_by key xs = fold (\<lambda>x m. m(key x \<mapsto> x)) xs Map.empty"

definition prefetch_products :: "database \<Rightarrow> inv_row list \<Rightarrow> (int \<rightharpoonup> product)" where
  "prefetch_products db rows =
     dict_by p_id (filter (\<lambda>p. p_id p \<in> set (map (\<lambda>(pid, wid, qty). pid) rows)) (db_products db))"

definition prefetch_warehouses :: "database \<Rightarrow> inv_row list \<Rightarrow> (int \<rightharpoonup> warehouse)" where
  "prefetch_warehouses db rows =
     dict_by wh_id (filter (\<lambda>w. wh_id w \<in> set (map (\<lambda>(pid, wid, qty). wid) rows)) (db_warehouses db))"

definition skip_reasons :: "rat \<Rightarrow> rat \<Rightarrow> rat \<Rightarrow> string list" where
  "skip_reasons a thr stock =
     (if a \<le> 0 then [''no_recent_sales''] else [])
     @ (if thr \<le> 0 then [''zero_threshold''] else [])
     @ (if thr \<le> stock then [''stock_not_below_threshold''] else [])"

definition keep_row :: "rat \<Rightarrow> rat \<Rightarrow> rat \<Rightarrow> bool" where
  "keep_row a thr stock = (0 < a \<and> 0 < thr \<and> stock < thr)"

definition mk_debug_row :: "product \<Rightarrow> warehouse \<Rightarrow> int \<Rightarrow> int \<Rightarrow> rat \<Rightarrow> rat \<Rightarrow> rat \<Rightarrow> debug_row" where
  "mk_debug_row p w pid wid stock thr a =
     \<lparr> d_sku = p_sku p, d_product_id = pid, d_warehouse_id = wid, d_warehouse_name = wh_name w,
       d_stock = stock, d_threshold = thr, d_ads = a,
       d_decision = (if keep_row a thr stock then ''keep'' else ''skip''),
       d_reason_if_skip = skip_reasons a thr stock \<rparr>"

definition mk_alert :: "product \<Rightarrow> warehouse \<Rightarrow> rat \<Rightarrow> rat \<Rightarrow> rat \<Rightarrow> supplier option \<Rightarrow> alert" where
  "mk_alert p w stock thr a supp =
     \<lparr> a_product_id = p_id p, a_product_name = p_name p, a_sku = p_sku p,
       a_warehouse_id = wh_id w, a_warehouse_name = wh_name w,
       a_current_stock = stock, a_threshold = thr,
       a_days_until_stockout = (if 0 < a then Some (stock / a) else None),
       a_supplier = supp \<rparr>"

record scan_env =
  e_db :: database
  e_company_id :: int
  e_since :: rat
  e_lookback_days :: int
  e_limit :: int
  e_debug :: bool
  e_products :: "int \<rightharpoonup> product"
  e_warehouses :: "int \<rightharpoonup> warehouse"

text \<open>The \<^verbatim>\<open>for\<close> loop over the inventory rows, with the two lists it appends to.\<close>

fun scan_rows ::
  "scan_env \<Rightarrow> inv_row list \<Rightarrow> alert list \<Rightarrow> debug_row list \<Rightarrow> py_error + (alert list \<times> debug_row list)"
where
  "scan_rows E [] alerts dbg = Inr (alerts, dbg)"
| "scan_rows E ((pid, wid, qty) # rows) alerts dbg =
     (case e_products E pid of
        None \<Rightarrow> scan_rows E rows alerts dbg
      | Some p \<Rightarrow>
        (case e_warehouses E wid of
           None \<Rightarrow> scan_rows E rows alerts dbg
         | Some w \<Rightarrow>
           (let stock = (case qty of None \<Rightarrow> 0 | Some q \<Rightarrow> q) in
            case ads (e_db E) (e_company_id E) pid wid (e_since E) (e_lookback_days E) of
              Inl err \<Rightarrow> Inl err
            | Inr a \<Rightarrow>
              (let thr = threshold (e_db E) (e_company_id E) p wid;
                   dbg' = (if e_debug E then dbg @ [mk_debug_row p w pid wid stock thr a] else dbg)
               in if \<not> keep_row a thr stock then scan_rows E rows alerts dbg'
                  else
                    (let supp = best_supplier (e_db E) (e_company_id E) pid;
                         alerts' = alerts @ [mk_alert p w stock thr a supp]
                     in if e_limit E \<le> int (length alerts') then Inr (alerts', dbg')
                        else scan_rows E rows alerts' dbg')))))"

subsection \<open>Ranking and the response\<close>

text \<open>\<^verbatim>\<open>xs[:n]\<close>: a negative \<open>n\<close> counts from the end.\<close>

definition py_prefix :: "'a list \<Rightarrow> int \<Rightarrow> 'a list" where
  "py_prefix xs n = (if 0 \<le> n then take (nat n) xs else take (nat (int (length xs) + n)) xs)"

definition deficiency :: "alert \<Rightarrow> rat" where
  "deficiency a = a_current_stock a - a_threshold a"

text \<open>\<^verbatim>\<open>alerts.sort(key=...)\<close> is a stable sort, as \<open>sort_key\<close> is.\<close>

definition sort_alerts :: "alert list \<Rightarrow> alert list" where
  "sort_alerts alerts = sort_key deficiency alerts"

definition truncate_alerts :: "alert list \<Rightarrow> int \<Rightarrow> alert list" where
  "truncate_alerts alerts limit = (if limit < int (length alerts) then py_prefix alerts limit else alerts)"

text \<open>Lines 206 to 208 of the handler: the sort, then the truncation.\<close>

definition rank_alerts :: "alert list \<Rightarrow> int \<Rightarrow> alert list" where
  "rank_alerts alerts limit = truncate_alerts (sort_alerts alerts) limit"

text \<open>The same step with the truncation removed.\<close>

definition rank_alerts_untruncated :: "alert list \<Rightarrow> int \<Rightarrow> alert list" where
  "rank_alerts_untruncated alerts limit = sort_alerts alerts"

text \<open>
  Lines 110 to 141 of the handler: the query parameters, the start of the window, the
  inventory rows and the two prefetched dictionaries. An early return is on the left.
  \<open>now\<close> is the value of \<^verbatim>\<open>datetime.utcnow()\<close>.
\<close>

definition target_warehouse_arg :: "string option \<Rightarrow> py_error + int option" where
  "target_warehouse_arg a =
     (case a of
        None \<Rightarrow> Inr None
      | Some s \<Rightarrow> (case py_int s of Inl err \<Rightarrow> Inl err | Inr n \<Rightarrow> Inr (Some n)))"

definition request_env ::
  "database \<Rightarrow> rat \<Rightarrow> int \<Rightarrow> alert_args \<Rightarrow> response + (scan_env \<times> inv_row list)"
where
  "request_env db now company_id args =
     (case int_arg (arg_lookback_days args) 30 of
        Inl err \<Rightarrow> Inl (Unhandled err)
      | Inr lookback_days \<Rightarrow>
        (case int_arg (arg_limit args) 100 of
           Inl err \<Rightarrow> Inl (Unhandled err)
         | Inr limit \<Rightarrow>
           (let debug = (arg_debug args = Some ''1'') in
            case target_warehouse_arg (arg_warehouse_id args) of
              Inl err \<Rightarrow> Inl (BadRequest400 ''invalid_warehouse_id'')
            | Inr target_warehouse \<Rightarrow>
              (case since_of now lookback_days of
                 Inl err \<Rightarrow> Inl (Unhandled err)
               | Inr since \<Rightarrow>
                 (let rows = inv_rows db company_id target_warehouse
                  in Inr (\<lparr> e_db = db, e_company_id = company_id, e_since = since,
                             e_lookback_days = lookback_days, e_limit = limit, e_debug = debug,
                             e_products = prefetch_products db rows,
                             e_warehouses = prefetch_warehouses db rows \<rparr>, rows))))))"

text \<open>
  The handler, with the step between the loop and the response as a parameter:
  \<open>low_stock_alerts\<close> is the handler of the source, \<open>low_stock_alerts_untruncated\<close> the
  handler without its final truncation.
\<close>

definition low_stock_alerts_with ::
  "(alert list \<Rightarrow> int \<Rightarrow> alert list) \<Rightarrow> database \<Rightarrow> rat \<Rightarrow> int \<Rightarrow> alert_args \<Rightarrow> response"
where
  "low_stock_alerts_with rank db now company_id args =
     (case request_env db now company_id args of
        Inl resp \<Rightarrow> resp
      | Inr (E, rows) \<Rightarrow>
        (case scan_rows E rows [] [] of
           Inl err \<Rightarrow> Unhandled err
         | Inr (alerts, dbg) \<Rightarrow>
           (let alerts' = rank alerts (e_limit E)
            in Ok200 \<lparr> r_alerts = alerts', r_total_alerts = length alerts',
                       r_debug = (if e_debug E then Some dbg else None) \<rparr>)))"

definition low_stock_alerts :: "database \<Rightarrow> rat \<Rightarrow> int \<Rightarrow> alert_args \<Rightarrow> response" where
  "low_stock_alerts = low_stock_alerts_with rank_alerts"

definition low_stock_alerts_untruncated :: "database \<Rightarrow> rat \<Rightarrow> int \<Rightarrow> alert_args \<Rightarrow> response" where
  "low_stock_alerts_untruncated = low_stock_alerts_with rank_alerts_untruncated"

subsection \<open>Product creation: \<^verbatim>\<open>create_product\<close>\<close>

text \<open>
  The JSON body of the request. \<open>None\<close> stands for a key that is absent or null. A name,
  a sku and a warehouse id of another JSON type than the expected one are outside the
  embedding.
\<close>

record product_payload =
  pl_name :: "string option"
  pl_sku :: "string option"
  pl_price :: py_value
  pl_initial_quantity :: "py_value option"
  pl_warehouse_id :: "int option"

datatype http_response =
    Created201 int
  | ValidationErrors400 "(string \<times> string) list"
  | NotFound404 string
  | Conflict409 string
  | InternalError500 py_error
  | Unhandled500 py_error

text \<open>
  The database session: what is committed, and the view of the open transaction, which
  holds the committed rows and the writes flushed since. \<^verbatim>\<open>commit\<close> makes the view the
  committed state; \<^verbatim>\<open>rollback\<close> makes the committed state the view.
\<close>

record session =
  committed :: database
  pending :: database

definition commit :: "session \<Rightarrow> session" where
  "commit s = s\<lparr>committed := pending s\<rparr>"

definition rollback :: "session \<Rightarrow> session" where
  "rollback s = s\<lparr>pending := committed s\<rparr>"

text \<open>The validation block: the error dictionary in insertion order, or the validated
  name, sku, price and initial quantity.\<close>

definition validate_payload ::
  "product_payload \<Rightarrow> (string \<times> string) list + (string \<times> string \<times> decimal \<times> int)"
where
  "validate_payload payload =
     (let name = strip (case pl_name payload of None \<Rightarrow> [] | Some n \<Rightarrow> n);
          sku = strip (case pl_sku payload of None \<Rightarrow> [] | Some k \<Rightarrow> k);
          price = as_money (pl_price payload);
          initial_quantity =
            (case py_int_of (case pl_initial_quantity payload of None \<Rightarrow> PyInt 0 | Some v \<Rightarrow> v) of
               Inl err \<Rightarrow> Inl err
             | Inr n \<Rightarrow> if n < 0 then Inl ValueError else Inr n);
          errors =
            (if name = [] then [(''name'', ''required'')] else [])
            @ (if sku = [] then [(''sku'', ''required'')] else [])
            @ (case price of Inl err \<Rightarrow> [(''price'', ''invalid_decimal'')] | Inr m \<Rightarrow> [])
            @ (case initial_quantity of
                 Inl err \<Rightarrow> [(''initial_quantity'', ''must_be_non_negative_integer'')]
               | Inr n \<Rightarrow> [])
      in case (errors, price, initial_quantity) of
           ([], Inr m, Inr n) \<Rightarrow> Inr (name, sku, m, n)
         | _ \<Rightarrow> Inl errors)"

text \<open>
  Modelled from the spec: the \<^verbatim>\<open>Product\<close> model and its table are not among the sources.
  The data model of the specification gives \<^verbatim>\<open>sku\<close> as unique, enforced by the
  persistence layer and surfacing as a conflict error: flushing a product whose sku is
  already in the table raises \<^verbatim>\<open>IntegrityError\<close>. Otherwise the row is inserted with a
  fresh id, one above the largest id in use.
\<close>

definition flush_product ::
  "database \<Rightarrow> string \<Rightarrow> string \<Rightarrow> decimal \<Rightarrow> py_error + (database \<times> product)"
where
  "flush_product db name sku price =
     (if sku \<in> set (map p_sku (db_products db)) then Inl IntegrityError
      else (let p = \<lparr> p_id = fold max (map p_id (db_products db)) 0 + 1, p_name = name,
                       p_sku = sku, p_price = price, p_product_type_id = None \<rparr>
            in Inr (db\<lparr>db_products := db_products db @ [p]\<rparr>, p)))"

text \<open>The optional initial inventory: the row of the product and warehouse is set to the
  quantity if it exists and inserted otherwise; \<^verbatim>\<open>scalar_one_or_none\<close> without a limit
  raises when it finds several rows.\<close>

definition set_inventory :: "database \<Rightarrow> int \<Rightarrow> int \<Rightarrow> int \<Rightarrow> py_error + database" where
  "set_inventory db product_id warehouse_id initial_quantity =
     (case filter (\<lambda>i. inv_product_id i = product_id \<and> inv_warehouse_id i = warehouse_id)
                  (db_inventory db) of
        [] \<Rightarrow> Inr (db\<lparr>db_inventory := db_inventory db
                     @ [\<lparr> inv_product_id = product_id, inv_warehouse_id = warehouse_id,
                          inv_quantity = Some (of_int initial_quantity) \<rparr>]\<rparr>)
      | [row] \<Rightarrow> Inr (db\<lparr>db_inventory :=
                        map (\<lambda>i. if inv_product_id i = product_id \<and> inv_warehouse_id i = warehouse_id
                                 then i\<lparr>inv_quantity := Some (of_int initial_quantity)\<rparr> else i)
                            (db_inventory db)\<rparr>)
      | _ \<Rightarrow> Inl MultipleResultsFound)"

text \<open>The \<^verbatim>\<open>try\<close> block up to the commit: the state of the transaction after the two
  writes, with the new product, or the exception raised on the way.\<close>

definition create_writes ::
  "database \<Rightarrow> string \<Rightarrow> string \<Rightarrow> decimal \<Rightarrow> int \<Rightarrow> int option \<Rightarrow> py_error + (database \<times> product)"
where
  "create_writes db name sku price initial_quantity warehouse_id =
     (case flush_product db name sku price of
        Inl err \<Rightarrow> Inl err
      | Inr (db1, product) \<Rightarrow>
          (case warehouse_id of
             None \<Rightarrow> Inr (db1, product)
           | Some wid \<Rightarrow>
               (case set_inventory db1 (p_id product) wid initial_quantity of
                  Inl err \<Rightarrow> Inl err
                | Inr db2 \<Rightarrow> Inr (db2, product))))"

definition create_product :: "session \<Rightarrow> product_payload \<Rightarrow> http_response \<times> session" where
  "create_product s payload =
     (case validate_payload payload of
        Inl errors \<Rightarrow> (ValidationErrors400 errors, s)
      | Inr (name, sku, price, initial_quantity) \<Rightarrow>
          (case (case pl_warehouse_id payload of
                   None \<Rightarrow> Inr ()
                 | Some wid \<Rightarrow>
                     (case filter (\<lambda>w. wh_id w = wid) (db_warehouses (pending s)) of
                        [] \<Rightarrow> Inl (NotFound404 ''warehouse_not_found'')
                      | [w] \<Rightarrow> Inr ()
                      | _ \<Rightarrow> Inl (Unhandled500 MultipleResultsFound))) of
             Inl resp \<Rightarrow> (resp, s)
           | Inr _ \<Rightarrow>
               (case create_writes (pending s) name sku price initial_quantity
                       (pl_warehouse_id payload) of
                  Inr (db2, product) \<Rightarrow> (Created201 (p_id product), commit (s\<lparr>pending := db2\<rparr>))
                | Inl err \<Rightarrow>
                    if err = IntegrityError
                    then (Conflict409 ''sku_already_exists'', rollback s)
                    else (InternalError500 err, rollback s))))"

subsection \<open>Vocabulary of the properties\<close>

text \<open>The number \<^verbatim>\<open>_ads\<close> returns.\<close>

definition ads_value :: "database \<Rightarrow> int \<Rightarrow> int \<Rightarrow> int \<Rightarrow> rat \<Rightarrow> int \<Rightarrow> rat" where
  "ads_value db company_id product_id warehouse_id since_dt lookback_days =
     coalesce (sql_sum (map ol_qty (ads_lines db company_id product_id warehouse_id since_dt))) 0
       / of_int (max lookback_days 1)"

text \<open>
  What one inventory row contributes when the loop reaches it: its alert, if its product
  and warehouse are known and the row is kept; its diagnostic record, if its product and
  warehouse are known.
\<close>

definition row_alert :: "scan_env \<Rightarrow> inv_row \<Rightarrow> alert option" where
  "row_alert E r =
     (case r of (pid, wid, qty) \<Rightarrow>
        (case (e_products E pid, e_warehouses E wid) of
           (Some p, Some w) \<Rightarrow>
             (let stock = (case qty of None \<Rightarrow> 0 | Some q \<Rightarrow> q);
                  a = ads_value (e_db E) (e_company_id E) pid wid (e_since E) (e_lookback_days E);
                  thr = threshold (e_db E) (e_company_id E) p wid
              in if keep_row a thr stock
                 then Some (mk_alert p w stock thr a (best_supplier (e_db E) (e_company_id E) pid))
                 else None)
         | _ \<Rightarrow> None))"

definition row_debug :: "scan_env \<Rightarrow> inv_row \<Rightarrow> debug_row option" where
  "row_debug E r =
     (case r of (pid, wid, qty) \<Rightarrow>
        (case (e_products E pid, e_warehouses E wid) of
           (Some p, Some w) \<Rightarrow>
             (let stock = (case qty of None \<Rightarrow> 0 | Some q \<Rightarrow> q);
                  a = ads_value (e_db E) (e_company_id E) pid wid (e_since E) (e_lookback_days E);
                  thr = threshold (e_db E) (e_company_id E) p wid
              in Some (mk_debug_row p w pid wid stock thr a))
         | _ \<Rightarrow> None))"

text \<open>The alerts of all qualifying rows, in scan order.\<close>

definition qualifying :: "scan_env \<Rightarrow> inv_row list \<Rightarrow> alert list" where
  "qualifying E rows = List.map_filter (row_alert E) rows"

text \<open>The rows up to and including the \<open>m\<close>-th qualifying one (all rows if there are fewer).\<close>

fun scanned_prefix :: "scan_env \<Rightarrow> nat \<Rightarrow> inv_row list \<Rightarrow> inv_row list" where
  "scanned_prefix E m [] = []"
| "scanned_prefix E m (r # rs) =
     (case row_alert E r of
        None \<Rightarrow> r # scanned_prefix E m rs
      | Some _ \<Rightarrow> if m \<le> 1 then [r] else r # scanned_prefix E (m - 1) rs)"

text \<open>
  How many alerts the loop still collects when it holds \<open>n\<close>: the limit is tested only
  after an alert has been appended, so at least one more is taken.
\<close>

definition quota :: "scan_env \<Rightarrow> nat \<Rightarrow> nat" where
  "quota E n = max 1 (nat (e_limit E - int n))"






subsection \<open>Sample data\<close>


text \<open>
  One company with one warehouse and two products, both below their product-level
  threshold of 10 and both sold at one unit a day: the first in scan order has 9 in
  stock, the second 1.
\<close>

definition wh_main :: warehouse where
  "wh_main = \<lparr> wh_id = 1, wh_company_id = 1, wh_name = ''Main'' \<rparr>"

definition prod_bolt :: product where
  "prod_bolt = \<lparr> p_id = 1, p_name = ''Bolt'', p_sku = ''A'', p_price = Finite False 100 (- 2),
                 p_product_type_id = None \<rparr>"

definition prod_nut :: product where
  "prod_nut = \<lparr> p_id = 2, p_name = ''Nut'', p_sku = ''B'', p_price = Finite False 100 (- 2),
                p_product_type_id = None \<rparr>"

definition db_shop :: database where
  "db_shop =
     \<lparr> db_warehouses = [wh_main],
       db_products = [prod_bolt, prod_nut],
       db_product_types = [],
       db_inventory =
         [\<lparr> inv_product_id = 1, inv_warehouse_id = 1, inv_quantity = Some 9 \<rparr>,
          \<lparr> inv_product_id = 2, inv_warehouse_id = 1, inv_quantity = Some 1 \<rparr>],
       db_product_thresholds =
         [\<lparr> pth_company_id = 1, pth_product_id = 1, pth_warehouse_id = None, pth_threshold = 10 \<rparr>,
          \<lparr> pth_company_id = 1, pth_product_id = 2, pth_warehouse_id = None, pth_threshold = 10 \<rparr>],
       db_orders = [\<lparr> o_id = 1, o_company_id = 1, o_created_at = 100, o_status = ''shipped'' \<rparr>],
       db_order_lines =
         [\<lparr> ol_order_id = 1, ol_product_id = 1, ol_warehouse_id = 1, ol_qty = Some 30 \<rparr>,
          \<lparr> ol_order_id = 1, ol_product_id = 2, ol_warehouse_id = 1, ol_qty = Some 30 \<rparr>],
       db_suppliers = [],
       db_product_suppliers = [] \<rparr>"

definition rows_shop :: "inv_row list" where
  "rows_shop = [(1, 1, Some 9), (2, 1, Some 1)]"

definition args_limit :: "string \<Rightarrow> alert_args" where
  "args_limit l = \<lparr> arg_lookback_days = None, arg_limit = Some l, arg_warehouse_id = None,
                    arg_debug = Some ''1'' \<rparr>"

definition env_shop :: "int \<Rightarrow> scan_env" where
  "env_shop limit =
     \<lparr> e_db = db_shop, e_company_id = 1, e_since = 80, e_lookback_days = 30, e_limit = limit,
       e_debug = True, e_products = prefetch_products db_shop rows_shop,
       e_warehouses = prefetch_warehouses db_shop rows_shop \<rparr>"

definition alert_bolt :: alert where
  "alert_bolt =
     \<lparr> a_product_id = 1, a_product_name = ''Bolt'', a_sku = ''A'', a_warehouse_id = 1,
       a_warehouse_name = ''Main'', a_current_stock = 9, a_threshold = 10,
       a_days_until_stockout = Some 9, a_supplier = None \<rparr>"

definition alert_nut :: alert where
  "alert_nut =
     \<lparr> a_product_id = 2, a_product_name = ''Nut'', a_sku = ''B'', a_warehouse_id = 1,
       a_warehouse_name = ''Main'', a_current_stock = 1, a_threshold = 10,
       a_days_until_stockout = Some 1, a_supplier = None \<rparr>"

definition debug_bolt :: debug_row where
  "debug_bolt =
     \<lparr> d_sku = ''A'', d_product_id = 1, d_warehouse_id = 1, d_warehouse_name = ''Main'',
       d_stock = 9, d_threshold = 10, d_ads = 1, d_decision = ''keep'', d_reason_if_skip = [] \<rparr>"









text \<open>A request to create a second product with the sku of the first product of the
  sample shop, with an initial quantity in its warehouse.\<close>

definition payload_dup :: product_payload where
  "payload_dup = \<lparr> pl_name = Some ''Bolt 2'', pl_sku = Some ''A'', pl_price = PyStr ''19.995'',
                   pl_initial_quantity = Some (PyInt 3), pl_warehouse_id = Some 1 \<rparr>"

definition session_shop :: session where
  "session_shop = \<lparr> committed = db_shop, pending = db_shop \<rparr>"


section \<open>Properties\<close>

subsection \<open>Average daily sales\<close>

lemma float_range_big: "999999999 < float_range"
  by (simp add: float_range_def)

lemma float_of_int_ok: "0 \<le> n \<Longrightarrow> n < float_range \<Longrightarrow> float_of_int n = Inr (of_int n)"
  by (simp add: float_of_int_def)

lemma ads_of_total_value:
  "max lb 1 < float_range \<Longrightarrow>
   ads_of_total tot lb = Inr ((case py_float tot of Inl e \<Rightarrow> 0 | Inr t \<Rightarrow> t) / of_int (max lb 1))"
  by (simp add: ads_of_total_def py_truediv_def float_of_int_ok Let_def)

lemma ads_of_total_overflow:
  "float_range \<le> max lb 1 \<Longrightarrow> ads_of_total tot lb = Inl OverflowError"
  by (simp add: ads_of_total_def py_truediv_def float_of_int_def Let_def)

lemma ads_value:
  "max lb 1 < float_range \<Longrightarrow> ads db c p w s lb = Inr (ads_value db c p w s lb)"
  by (simp add: ads_def ads_total_def ads_of_total_value ads_value_def)

lemma ads_overflow:
  "float_range \<le> max lb 1 \<Longrightarrow> ads db c p w s lb = Inl OverflowError"
  by (simp add: ads_def ads_of_total_overflow)




subsection \<open>The scan loop\<close>

lemma row_alert_debug: "row_debug E r = None \<Longrightarrow> row_alert E r = None"
  by (auto simp: row_alert_def row_debug_def Let_def split: prod.splits option.splits)

lemma scan_step_unknown:
  "row_debug E r = None \<Longrightarrow> scan_rows E (r # rows) alerts dbg = scan_rows E rows alerts dbg"
  by (cases r) (auto simp: row_debug_def Let_def split: option.splits)

lemma scan_step_skip:
  "max (e_lookback_days E) 1 < float_range \<Longrightarrow>
   row_debug E r = Some d \<Longrightarrow> row_alert E r = None \<Longrightarrow>
   scan_rows E (r # rows) alerts dbg = scan_rows E rows alerts (if e_debug E then dbg @ [d] else dbg)"
  by (cases r) (auto simp: row_debug_def row_alert_def ads_value Let_def split: option.splits if_splits)

lemma scan_step_keep:
  "max (e_lookback_days E) 1 < float_range \<Longrightarrow>
   row_debug E r = Some d \<Longrightarrow> row_alert E r = Some x \<Longrightarrow>
   scan_rows E (r # rows) alerts dbg =
     (if e_limit E \<le> int (length alerts) + 1
      then Inr (alerts @ [x], if e_debug E then dbg @ [d] else dbg)
      else scan_rows E rows (alerts @ [x]) (if e_debug E then dbg @ [d] else dbg))"
  by (cases r) (auto simp: row_debug_def row_alert_def ads_value Let_def split: option.splits if_splits)

lemma scan_rows_char:
  assumes ok: "max (e_lookback_days E) 1 < float_range"
  shows "scan_rows E rows alerts dbg =
     Inr (alerts @ take (quota E (length alerts)) (qualifying E rows),
          dbg @ (if e_debug E
                 then List.map_filter (row_debug E) (scanned_prefix E (quota E (length alerts)) rows)
                 else []))"
proof (induction rows arbitrary: alerts dbg)
  case Nil
  show ?case by (simp add: qualifying_def List.map_filter_simps)
next
  case (Cons r rows)
  show ?case
  proof (cases "row_debug E r")
    case None
    then show ?thesis
      using Cons.IH [of alerts dbg] row_alert_debug [OF None]
      by (simp add: scan_step_unknown qualifying_def List.map_filter_simps del: scan_rows.simps)
  next
    case (Some d)
    note d = Some
    show ?thesis
    proof (cases "row_alert E r")
      case None
      then show ?thesis
        using Cons.IH [of alerts "if e_debug E then dbg @ [d] else dbg"] d
        by (simp add: scan_step_skip [OF ok] qualifying_def List.map_filter_simps del: scan_rows.simps)
    next
      case (Some x)
      note x = Some
      show ?thesis
      proof (cases "e_limit E \<le> int (length alerts) + 1")
        case True
        then have q: "quota E (length alerts) = 1"
          unfolding quota_def by linarith
        show ?thesis
          using True d x
          by (simp add: scan_step_keep [OF ok d x] q qualifying_def List.map_filter_simps
                   del: scan_rows.simps)
      next
        case False
        then have q: "quota E (length alerts) = Suc (quota E (Suc (length alerts)))"
          unfolding quota_def by linarith
        have q1: "\<not> quota E (length alerts) \<le> 1"
          using False unfolding quota_def by linarith
        show ?thesis
          using False d x q1 Cons.IH [of "alerts @ [x]" "if e_debug E then dbg @ [d] else dbg"]
          by (simp add: scan_step_keep [OF ok d x] q qualifying_def List.map_filter_simps
                   del: scan_rows.simps)
      qed
    qed
  qed
qed

lemma scan_step_overflow:
  "float_range \<le> max (e_lookback_days E) 1 \<Longrightarrow> row_debug E r = Some d \<Longrightarrow>
   scan_rows E (r # rows) alerts dbg = Inl OverflowError"
  by (cases r) (auto simp: row_debug_def ads_overflow Let_def split: option.splits)

lemma scan_overflow:
  assumes big: "float_range \<le> max (e_lookback_days E) 1"
  shows "scan_rows E rows alerts dbg = Inr (a, d) \<Longrightarrow> a = alerts \<and> d = dbg"
proof (induction rows)
  case Nil
  then show ?case by simp
next
  case (Cons r rows)
  show ?case
  proof (cases "row_debug E r")
    case None
    with Cons show ?thesis by (simp add: scan_step_unknown del: scan_rows.simps)
  next
    case (Some x)
    from scan_step_overflow [OF big Some] Cons.prems show ?thesis by simp
  qed
qed

subsection \<open>The handler\<close>

lemma quota_pos: "1 \<le> e_limit E \<Longrightarrow> quota E 0 = nat (e_limit E)"
  unfolding quota_def by simp

lemma quota_nonpos: "e_limit E \<le> 0 \<Longrightarrow> quota E 0 = 1"
  unfolding quota_def by simp

lemma since_of_bound: "since_of now lb = Inr s \<Longrightarrow> max lb 1 < float_range"
  using float_range_big by (auto simp: since_of_def split: if_splits)

lemma request_env_lookback:
  "request_env db now cid args = Inr (E, rows) \<Longrightarrow> max (e_lookback_days E) 1 < float_range"
  by (auto simp: request_env_def Let_def split: sum.splits dest: since_of_bound)

lemma low_stock_alerts_with_ok:
  assumes env: "request_env db now cid args = Inr (E, rows)"
  shows "low_stock_alerts_with rank db now cid args =
     Ok200 \<lparr> r_alerts = rank (take (quota E 0) (qualifying E rows)) (e_limit E),
             r_total_alerts = length (rank (take (quota E 0) (qualifying E rows)) (e_limit E)),
             r_debug = (if e_debug E
                        then Some (List.map_filter (row_debug E) (scanned_prefix E (quota E 0) rows))
                        else None) \<rparr>"
  using env scan_rows_char [OF request_env_lookback [OF env], of rows "[]" "[]"]
  by (simp add: low_stock_alerts_with_def Let_def)

lemma sort_alerts_short: "length xs \<le> 1 \<Longrightarrow> sort_alerts xs = xs"
  by (cases xs) (auto simp: sort_alerts_def)

lemma rank_alerts_take:
  "rank_alerts (take (quota E 0) K) (e_limit E) = sort_alerts (take (nat (e_limit E)) K)"
proof (cases "1 \<le> e_limit E")
  case True
  have "length (take (nat (e_limit E)) K) \<le> nat (e_limit E)" by simp
  with True have "\<not> e_limit E < int (length (sort_alerts (take (nat (e_limit E)) K)))"
    unfolding sort_alerts_def length_sort by linarith
  with True show ?thesis
    by (simp only: quota_pos rank_alerts_def truncate_alerts_def if_False)
next
  case False
  then have q: "quota E 0 = 1" by (simp add: quota_nonpos)
  have s: "sort_alerts (take 1 K) = take 1 K" by (rule sort_alerts_short) simp
  from False have n: "nat (e_limit E) = 0" by simp
  show ?thesis
    using False
    by (cases K) (auto simp: q s n rank_alerts_def truncate_alerts_def py_prefix_def sort_alerts_def)
qed

lemma request_env_fields:
  "request_env db now cid args = Inr (E, rows) \<Longrightarrow>
     e_db E = db \<and> e_company_id E = cid
     \<and> int_arg (arg_lookback_days args) 30 = Inr (e_lookback_days E)
     \<and> int_arg (arg_limit args) 100 = Inr (e_limit E)
     \<and> since_of now (e_lookback_days E) = Inr (e_since E)
     \<and> e_debug E = (arg_debug args = Some ''1'')
     \<and> e_products E = prefetch_products db rows
     \<and> e_warehouses E = prefetch_warehouses db rows"
  by (auto simp: request_env_def Let_def split: sum.splits)

lemma fold_upd_key:
  "fold (\<lambda>x m. m(key x \<mapsto> x)) xs m0 k = Some x \<Longrightarrow> key x = k \<or> m0 k = Some x"
proof (induction xs arbitrary: m0)
  case Nil
  then show ?case by simp
next
  case (Cons a xs)
  from Cons.prems have "fold (\<lambda>x m. m(key x \<mapsto> x)) xs (m0(key a \<mapsto> a)) k = Some x"
    by (simp only: fold.simps o_apply)
  from Cons.IH [OF this] show ?case by (auto split: if_splits)
qed

lemma dict_by_key: "dict_by key xs k = Some x \<Longrightarrow> key x = k"
  using fold_upd_key [of key xs Map.empty k x] by (simp add: dict_by_def)

lemma qualifying_scanned:
  "1 \<le> m \<Longrightarrow> qualifying E (scanned_prefix E m rows) = take m (qualifying E rows)"
proof (induction rows arbitrary: m)
  case Nil
  show ?case by (simp add: qualifying_def List.map_filter_simps)
next
  case (Cons r rows)
  show ?case
  proof (cases "row_alert E r")
    case None
    then show ?thesis using Cons by (simp add: qualifying_def List.map_filter_simps)
  next
    case (Some x)
    show ?thesis
    proof (cases "m \<le> 1")
      case True
      with Cons.prems have "m = 1" by simp
      then show ?thesis using Some by (simp add: qualifying_def List.map_filter_simps)
    next
      case False
      then have "1 \<le> m - 1" by simp
      from Cons.IH [OF this] False Some show ?thesis
        by (cases m) (auto simp: qualifying_def List.map_filter_simps)
    qed
  qed
qed


subsection \<open>The sample shop\<close>

lemma py_int_1: "py_int ''1'' = Inr 1"
  by (simp add: py_int_def strip_def is_space_def py_digits_def digit_val_def Let_def)

lemma py_int_0: "py_int ''0'' = Inr 0"
  by (simp add: py_int_def strip_def is_space_def py_digits_def digit_val_def Let_def)

lemma shop_ids: "wh_id wh_main = 1" "wh_company_id wh_main = 1" "p_id prod_bolt = 1" "p_id prod_nut = 2"
  "p_product_type_id prod_bolt = None" "p_product_type_id prod_nut = None"
  by (simp_all add: wh_main_def prod_bolt_def prod_nut_def)

lemma inv_rows_shop: "inv_rows db_shop 1 None = rows_shop"
  by (simp add: inv_rows_def db_shop_def rows_shop_def shop_ids)

lemma request_env_shop_1: "request_env db_shop 110 1 (args_limit ''1'') = Inr (env_shop 1, rows_shop)"
  by (simp add: request_env_def args_limit_def int_arg_def py_int_1 target_warehouse_arg_def
        since_of_def inv_rows_shop env_shop_def Let_def)

lemma request_env_shop_0: "request_env db_shop 110 1 (args_limit ''0'') = Inr (env_shop 0, rows_shop)"
  by (simp add: request_env_def args_limit_def int_arg_def py_int_0 target_warehouse_arg_def
        since_of_def inv_rows_shop env_shop_def Let_def)

lemma env_shop_fields:
  "e_db (env_shop l) = db_shop" "e_company_id (env_shop l) = 1" "e_since (env_shop l) = 80"
  "e_lookback_days (env_shop l) = 30" "e_limit (env_shop l) = l" "e_debug (env_shop l)"
  by (simp_all add: env_shop_def)

lemma env_shop_lookback: "max (e_lookback_days (env_shop l)) 1 < float_range"
  by (simp add: env_shop_fields float_range_def)

lemma products_shop:
  "e_products (env_shop l) 1 = Some prod_bolt"
  "e_products (env_shop l) 2 = Some prod_nut"
  "e_warehouses (env_shop l) 1 = Some wh_main"
  by (simp_all add: env_shop_def prefetch_products_def prefetch_warehouses_def dict_by_def
        db_shop_def rows_shop_def shop_ids)

lemma ads_shop:
  "ads_value db_shop 1 1 1 80 30 = 1" "ads_value db_shop 1 2 1 80 30 = 1"
  by (simp_all add: ads_value_def ads_lines_def ads_orders_def db_shop_def sql_sum_def coalesce_def
        List.map_filter_simps)

lemma threshold_shop:
  "threshold db_shop 1 prod_bolt 1 = 10"
  "threshold db_shop 1 prod_nut 1 = 10"
  by (simp_all add: threshold_def db_shop_def scalar_one_or_none_def shop_ids)

lemma best_supplier_shop: "best_supplier db_shop 1 pid = None"
  by (simp add: best_supplier_def best_supplier_id_def preferred_links_def all_links_def
        supplier_order_def scalar_one_or_none_def db_shop_def)

lemma mk_alert_shop:
  "mk_alert prod_bolt wh_main 9 10 1 None = alert_bolt"
  "mk_alert prod_nut wh_main 1 10 1 None = alert_nut"
  by (simp_all add: mk_alert_def alert_bolt_def alert_nut_def wh_main_def prod_bolt_def prod_nut_def)

lemma row_alert_shop:
  "row_alert (env_shop l) (1, 1, Some 9) = Some alert_bolt"
  "row_alert (env_shop l) (2, 1, Some 1) = Some alert_nut"
  by (simp_all add: row_alert_def products_shop env_shop_fields ads_shop threshold_shop
        best_supplier_shop keep_row_def mk_alert_shop)

lemma qualifying_shop: "qualifying (env_shop l) rows_shop = [alert_bolt, alert_nut]"
  by (simp add: qualifying_def rows_shop_def List.map_filter_simps row_alert_shop)


lemma low_stock_alerts_with_early:
  "request_env db now cid args = Inl resp \<Longrightarrow> low_stock_alerts_with rank db now cid args = resp"
  by (simp add: low_stock_alerts_with_def)

lemma int_arg_1: "int_arg (arg_limit (args_limit ''1'')) 100 = Inr 1"
  by (simp add: int_arg_def args_limit_def py_int_1)

lemma qualifying_mem:
  "a \<in> set (qualifying E rows) \<Longrightarrow> \<exists>r\<in>set rows. row_alert E r = Some a"
  by (induction rows) (auto simp: qualifying_def List.map_filter_simps split: option.splits)

lemma sort_alerts_set: "set (sort_alerts xs) = set xs"
  by (simp add: sort_alerts_def)

lemma row_alert_days:
  assumes "row_alert E (pid, wid, qty) = Some a"
    and "\<And>p. e_products E pid = Some p \<Longrightarrow> p_id p = pid"
    and "\<And>w. e_warehouses E wid = Some w \<Longrightarrow> wh_id w = wid"
  shows "a_product_id a = pid \<and> a_warehouse_id a = wid
         \<and> 0 < ads_value (e_db E) (e_company_id E) pid wid (e_since E) (e_lookback_days E)
         \<and> a_days_until_stockout a =
             Some (a_current_stock a
                    / ads_value (e_db E) (e_company_id E) pid wid (e_since E) (e_lookback_days E))"
  using assms
  by (auto simp: row_alert_def mk_alert_def keep_row_def Let_def split: option.splits if_splits)

lemma scanned_prefix_is_prefix: "\<exists>rest. rows = scanned_prefix E m rows @ rest"
  by (induction rows arbitrary: m) (auto split: option.splits)

lemma row_decision:
  assumes "row_debug E r = Some d"
  shows "(row_alert E r \<noteq> None) = (0 < d_ads d \<and> 0 < d_threshold d \<and> d_stock d < d_threshold d)"
    and "d_decision d = (if 0 < d_ads d \<and> 0 < d_threshold d \<and> d_stock d < d_threshold d
                         then ''keep'' else ''skip'')"
    and "set (d_reason_if_skip d) =
           {s. (s = ''no_recent_sales'' \<and> d_ads d \<le> 0)
             \<or> (s = ''zero_threshold'' \<and> d_threshold d \<le> 0)
             \<or> (s = ''stock_not_below_threshold'' \<and> d_threshold d \<le> d_stock d)}"
    and "\<forall>a. row_alert E r = Some a \<longrightarrow> a_current_stock a = d_stock d \<and> a_threshold a = d_threshold d"
proof -
  obtain pid wid qty where r: "r = (pid, wid, qty)" by (cases r) auto
  from assms obtain p w where pw: "e_products E pid = Some p" "e_warehouses E wid = Some w"
    by (auto simp: r row_debug_def split: option.splits)
  define stock where "stock = (case qty of None \<Rightarrow> 0 | Some q \<Rightarrow> q)"
  define a where "a = ads_value (e_db E) (e_company_id E) pid wid (e_since E) (e_lookback_days E)"
  define thr where "thr = threshold (e_db E) (e_company_id E) p wid"
  from assms pw have d: "d = mk_debug_row p w pid wid stock thr a"
    by (simp add: r row_debug_def stock_def a_def thr_def Let_def)
  have ra: "row_alert E r = (if keep_row a thr stock
              then Some (mk_alert p w stock thr a (best_supplier (e_db E) (e_company_id E) pid))
              else None)"
    using pw by (simp add: r row_alert_def stock_def a_def thr_def Let_def)
  have f: "d_ads d = a" "d_threshold d = thr" "d_stock d = stock"
    "d_decision d = (if keep_row a thr stock then ''keep'' else ''skip'')"
    "d_reason_if_skip d = skip_reasons a thr stock"
    by (simp_all add: d mk_debug_row_def)
  show "(row_alert E r \<noteq> None) = (0 < d_ads d \<and> 0 < d_threshold d \<and> d_stock d < d_threshold d)"
    by (simp add: ra f keep_row_def)
  show "d_decision d = (if 0 < d_ads d \<and> 0 < d_threshold d \<and> d_stock d < d_threshold d
                         then ''keep'' else ''skip'')"
    by (simp add: f keep_row_def)
  show "set (d_reason_if_skip d) =
           {s. (s = ''no_recent_sales'' \<and> d_ads d \<le> 0)
             \<or> (s = ''zero_threshold'' \<and> d_threshold d \<le> 0)
             \<or> (s = ''stock_not_below_threshold'' \<and> d_threshold d \<le> d_stock d)}"
    unfolding f skip_reasons_def by auto
  show "\<forall>a. row_alert E r = Some a \<longrightarrow> a_current_stock a = d_stock d \<and> a_threshold a = d_threshold d"
    by (auto simp: ra f mk_alert_def split: if_splits)
qed

lemma quota_ge_1: "1 \<le> quota E n"
  by (simp add: quota_def)

lemma scan_shop_1: "scan_rows (env_shop 1) rows_shop [] [] = Inr ([alert_bolt], [debug_bolt])"
proof -
  have q: "quota (env_shop 1) 0 = 1" by (simp add: quota_def env_shop_fields)
  have s: "scanned_prefix (env_shop 1) (Suc 0) rows_shop = [(1, 1, Some 9)]"
    by (simp add: rows_shop_def row_alert_shop)
  have m: "mk_debug_row prod_bolt wh_main 1 1 9 10 1 = debug_bolt"
    by (simp add: mk_debug_row_def keep_row_def skip_reasons_def debug_bolt_def prod_bolt_def
          wh_main_def)
  have d: "row_debug (env_shop 1) (1, 1, Some 9) = Some debug_bolt"
    by (simp add: row_debug_def products_shop env_shop_fields ads_shop threshold_shop m)
  show ?thesis
    unfolding scan_rows_char [OF env_shop_lookback, where rows = rows_shop and alerts = "[]"
        and dbg = "[]"]
    by (simp add: q s d qualifying_shop env_shop_fields List.map_filter_simps)
qed

lemma scan_shop_0: "scan_rows (env_shop 0) rows_shop [] [] = Inr ([alert_bolt], [debug_bolt])"
proof -
  have q: "quota (env_shop 0) 0 = 1" by (simp add: quota_def env_shop_fields)
  have s: "scanned_prefix (env_shop 0) (Suc 0) rows_shop = [(1, 1, Some 9)]"
    by (simp add: rows_shop_def row_alert_shop)
  have m: "mk_debug_row prod_bolt wh_main 1 1 9 10 1 = debug_bolt"
    by (simp add: mk_debug_row_def keep_row_def skip_reasons_def debug_bolt_def prod_bolt_def
          wh_main_def)
  have d: "row_debug (env_shop 0) (1, 1, Some 9) = Some debug_bolt"
    by (simp add: row_debug_def products_shop env_shop_fields ads_shop threshold_shop m)
  show ?thesis
    unfolding scan_rows_char [OF env_shop_lookback, where rows = rows_shop and alerts = "[]"
        and dbg = "[]"]
    by (simp add: q s d qualifying_shop env_shop_fields List.map_filter_simps)
qed

lemma target_warehouse_zero: "target_warehouse_arg (Some ''0'') = Inr (Some 0)"
  by (simp add: target_warehouse_arg_def py_int_0)

lemma request_env_zero:
  "request_env db now cid (args\<lparr>arg_warehouse_id := Some ''0''\<rparr>)
     = request_env db now cid (args\<lparr>arg_warehouse_id := None\<rparr>)"
  by (auto simp: request_env_def target_warehouse_arg_def py_int_0 inv_rows_def Let_def
           split: sum.splits)

lemma bad_request_only_from_warehouse:
  "low_stock_alerts db now cid args = BadRequest400 s \<Longrightarrow>
   \<exists>err. target_warehouse_arg (arg_warehouse_id args) = Inl err"
  by (auto simp: low_stock_alerts_def low_stock_alerts_with_def request_env_def Let_def
           split: sum.splits prod.splits)

subsection \<open>Threshold resolution\<close>




subsection \<open>Supplier selection\<close>










subsection \<open>Claims\<close>





theorem early_exit_limit_zero_counterexample:
  "request_env db_shop 110 1 (args_limit ''0'') = Inr (env_shop 0, rows_shop)
   \<and> e_limit (env_shop 0) < int (length (qualifying (env_shop 0) rows_shop))
   \<and> scan_rows (env_shop 0) rows_shop [] [] = Inr ([alert_bolt], [debug_bolt])
   \<and> \<not> int (length [alert_bolt]) \<le> e_limit (env_shop 0)"
  by (simp add: request_env_shop_0 scan_shop_0 env_shop_fields qualifying_shop)


text \<open>
  \<^bold>\<open>C4.\<close> For a request whose limit is at least one, the truncation after the sort
  changes nothing: the handler without it returns the same response. (With a limit of
  zero or less the loop still collects one alert before it tests the limit, and only the
  truncation removes it: in the sample shop with a limit of zero the handler returns no
  alert, the handler without truncation returns one.)
\<close>

theorem truncation_redundant_for_positive_limit:
  "int_arg (arg_limit args) 100 = Inr limit \<Longrightarrow> 1 \<le> limit \<Longrightarrow>
   low_stock_alerts_untruncated db now cid args = low_stock_alerts db now cid args"
proof (cases "request_env db now cid args")
  case (Inl resp)
  then show ?thesis
    by (simp add: low_stock_alerts_untruncated_def low_stock_alerts_def low_stock_alerts_with_early)
next
  case (Inr p)
  assume l: "int_arg (arg_limit args) 100 = Inr limit" and pos: "1 \<le> limit"
  obtain E rows where p: "p = (E, rows)" by (cases p) auto
  with Inr have env: "request_env db now cid args = Inr (E, rows)" by simp
  from request_env_fields [OF env] l have el: "e_limit E = limit" by simp
  with pos have q: "quota E 0 = nat (e_limit E)" by (simp add: quota_pos)
  have "rank_alerts_untruncated (take (quota E 0) (qualifying E rows)) (e_limit E)
          = rank_alerts (take (quota E 0) (qualifying E rows)) (e_limit E)"
    unfolding rank_alerts_take by (simp add: rank_alerts_untruncated_def q)
  then show ?thesis
    by (simp add: low_stock_alerts_untruncated_def low_stock_alerts_def low_stock_alerts_with_ok [OF env])
qed

theorem truncation_redundant_for_positive_limit_witness:
  "int_arg (arg_limit (args_limit ''1'')) 100 = Inr 1 \<and> (1::int) \<le> 1
   \<and> low_stock_alerts_untruncated db_shop 110 1 (args_limit ''1'')
       = low_stock_alerts db_shop 110 1 (args_limit ''1'')"
  using truncation_redundant_for_positive_limit [of "args_limit ''1''" 1 db_shop 110 1] int_arg_1
  by simp

theorem truncation_not_redundant_counterexample:
  "low_stock_alerts_untruncated db_shop 110 1 (args_limit ''0'')
     \<noteq> low_stock_alerts db_shop 110 1 (args_limit ''0'')"
proof -
  have q: "quota (env_shop 0) 0 = 1" by (simp add: quota_def env_shop_fields)
  have a: "rank_alerts (take (quota (env_shop 0) 0) (qualifying (env_shop 0) rows_shop))
             (e_limit (env_shop 0)) = []"
    unfolding rank_alerts_take by (simp add: env_shop_fields sort_alerts_def)
  have b: "rank_alerts_untruncated (take (quota (env_shop 0) 0) (qualifying (env_shop 0) rows_shop))
             (e_limit (env_shop 0)) = [alert_bolt]"
    by (simp add: rank_alerts_untruncated_def q qualifying_shop sort_alerts_def)
  show ?thesis
    unfolding low_stock_alerts_untruncated_def low_stock_alerts_def
      low_stock_alerts_with_ok [OF request_env_shop_0] a b
    by simp
qed

text \<open>
  \<^bold>\<open>C9.\<close> Every alert of a response has a \<^verbatim>\<open>days_until_stockout\<close> that is not null: it
  is the alert's stock divided by the average daily sales of the alert's product and
  warehouse, and these sales are positive, since only rows with positive sales are kept.
\<close>

theorem days_until_stockout_never_null:
  "request_env db now cid args = Inr (E, rows) \<Longrightarrow>
   low_stock_alerts db now cid args = Ok200 rep \<Longrightarrow>
   a \<in> set (r_alerts rep) \<Longrightarrow>
   (\<exists>v. ads db cid (a_product_id a) (a_warehouse_id a) (e_since E) (e_lookback_days E) = Inr v
        \<and> 0 < v \<and> a_days_until_stockout a = Some (a_current_stock a / v))"
proof -
  assume env: "request_env db now cid args = Inr (E, rows)"
    and ok: "low_stock_alerts db now cid args = Ok200 rep"
    and a: "a \<in> set (r_alerts rep)"
  from ok have "r_alerts rep = sort_alerts (take (nat (e_limit E)) (qualifying E rows))"
    unfolding low_stock_alerts_def low_stock_alerts_with_ok [OF env]
    by (auto simp: rank_alerts_take)
  with a have "a \<in> set (take (nat (e_limit E)) (qualifying E rows))"
    by (simp add: sort_alerts_set)
  then have "a \<in> set (qualifying E rows)" by (rule in_set_takeD)
  from qualifying_mem [OF this] obtain r where r: "row_alert E r = Some a" by blast
  obtain pid wid qty where rr: "r = (pid, wid, qty)" by (cases r) auto
  note f = request_env_fields [OF env]
  have p: "\<And>p. e_products E pid = Some p \<Longrightarrow> p_id p = pid"
    using f by (auto simp: prefetch_products_def dest: dict_by_key)
  have w: "\<And>w. e_warehouses E wid = Some w \<Longrightarrow> wh_id w = wid"
    using f by (auto simp: prefetch_warehouses_def dest: dict_by_key)
  from row_alert_days [OF r [unfolded rr] p w] f show ?thesis
    by (auto simp: ads_value [OF request_env_lookback [OF env]])
qed

theorem days_until_stockout_never_null_witness:
  "request_env db_shop 110 1 (args_limit ''1'') = Inr (env_shop 1, rows_shop)
   \<and> low_stock_alerts db_shop 110 1 (args_limit ''1'')
       = Ok200 \<lparr> r_alerts = [alert_bolt], r_total_alerts = 1,
                 r_debug = Some (List.map_filter (row_debug (env_shop 1))
                                    (scanned_prefix (env_shop 1) (quota (env_shop 1) 0) rows_shop)) \<rparr>
   \<and> (\<exists>v. ads db_shop 1 1 1 80 30 = Inr v \<and> 0 < v \<and> a_days_until_stockout alert_bolt = Some (9 / v))"
proof -
  have r: "rank_alerts (take (quota (env_shop 1) 0) (qualifying (env_shop 1) rows_shop))
             (e_limit (env_shop 1)) = [alert_bolt]"
    unfolding rank_alerts_take
    by (simp add: env_shop_fields qualifying_shop sort_alerts_def)
  have ok: "low_stock_alerts db_shop 110 1 (args_limit ''1'')
       = Ok200 \<lparr> r_alerts = [alert_bolt], r_total_alerts = 1,
                 r_debug = Some (List.map_filter (row_debug (env_shop 1))
                                    (scanned_prefix (env_shop 1) (quota (env_shop 1) 0) rows_shop)) \<rparr>"
    unfolding low_stock_alerts_def low_stock_alerts_with_ok [OF request_env_shop_1] r
    by (simp add: env_shop_fields(6))
  from days_until_stockout_never_null [OF request_env_shop_1 ok, of alert_bolt]
  show ?thesis
    using request_env_shop_1 ok by (simp add: env_shop_fields alert_bolt_def)
qed

text \<open>
  \<^bold>\<open>C1.\<close> The loop reaches a prefix of the inventory rows. Its alerts are the alerts of
  the rows of that prefix, in order, and with debugging on its diagnostic records are the
  records of those rows. For every row it reaches whose product and warehouse are known,
  with the stock, threshold and sales of its record: the row yields an alert if and only
  if sales are positive, the threshold is positive and the stock is below the threshold
  (so a stock equal to the threshold is skipped and any stock strictly below it is kept);
  the recorded decision says so; and the recorded reasons are exactly those of
  \<^verbatim>\<open>no_recent_sales\<close>, \<^verbatim>\<open>zero_threshold\<close> and \<^verbatim>\<open>stock_not_below_threshold\<close> whose own
  condition holds, each tested independently of the others.
\<close>

theorem keep_decision_rule:
  "scan_rows E rows [] [] = Inr (alerts, dbg) \<Longrightarrow>
   (\<exists>scanned rest. rows = scanned @ rest
      \<and> alerts = List.map_filter (row_alert E) scanned
      \<and> dbg = (if e_debug E then List.map_filter (row_debug E) scanned else [])
      \<and> (\<forall>r\<in>set scanned. \<forall>d. row_debug E r = Some d \<longrightarrow>
            ((row_alert E r \<noteq> None)
               = (0 < d_ads d \<and> 0 < d_threshold d \<and> d_stock d < d_threshold d))
          \<and> d_decision d = (if 0 < d_ads d \<and> 0 < d_threshold d \<and> d_stock d < d_threshold d
                             then ''keep'' else ''skip'')
          \<and> set (d_reason_if_skip d) =
               {s. (s = ''no_recent_sales'' \<and> d_ads d \<le> 0)
                 \<or> (s = ''zero_threshold'' \<and> d_threshold d \<le> 0)
                 \<or> (s = ''stock_not_below_threshold'' \<and> d_threshold d \<le> d_stock d)}
          \<and> (\<forall>a. row_alert E r = Some a \<longrightarrow>
                 a_current_stock a = d_stock d \<and> a_threshold a = d_threshold d)))"
proof -
  assume sc: "scan_rows E rows [] [] = Inr (alerts, dbg)"
  let ?S = "scanned_prefix E (quota E 0) rows"
  from scanned_prefix_is_prefix [of rows E "quota E 0"] obtain rest where r: "rows = ?S @ rest" ..
  have rd: "\<And>S. \<forall>r\<in>set S. \<forall>d. row_debug E r = Some d \<longrightarrow>
            ((row_alert E r \<noteq> None)
               = (0 < d_ads d \<and> 0 < d_threshold d \<and> d_stock d < d_threshold d))
          \<and> d_decision d = (if 0 < d_ads d \<and> 0 < d_threshold d \<and> d_stock d < d_threshold d
                             then ''keep'' else ''skip'')
          \<and> set (d_reason_if_skip d) =
               {s. (s = ''no_recent_sales'' \<and> d_ads d \<le> 0)
                 \<or> (s = ''zero_threshold'' \<and> d_threshold d \<le> 0)
                 \<or> (s = ''stock_not_below_threshold'' \<and> d_threshold d \<le> d_stock d)}
          \<and> (\<forall>a. row_alert E r = Some a \<longrightarrow>
                 a_current_stock a = d_stock d \<and> a_threshold a = d_threshold d)"
  proof (intro ballI allI impI)
    fix r d
    assume h: "row_debug E r = Some d"
    show "((row_alert E r \<noteq> None)
               = (0 < d_ads d \<and> 0 < d_threshold d \<and> d_stock d < d_threshold d))
          \<and> d_decision d = (if 0 < d_ads d \<and> 0 < d_threshold d \<and> d_stock d < d_threshold d
                             then ''keep'' else ''skip'')
          \<and> set (d_reason_if_skip d) =
               {s. (s = ''no_recent_sales'' \<and> d_ads d \<le> 0)
                 \<or> (s = ''zero_threshold'' \<and> d_threshold d \<le> 0)
                 \<or> (s = ''stock_not_below_threshold'' \<and> d_threshold d \<le> d_stock d)}
          \<and> (\<forall>a. row_alert E r = Some a \<longrightarrow>
                 a_current_stock a = d_stock d \<and> a_threshold a = d_threshold d)"
      by (intro conjI) (rule row_decision [OF h])+
  qed
  show ?thesis
  proof (cases "max (e_lookback_days E) 1 < float_range")
    case True
    from sc scan_rows_char [OF True, of rows "[]" "[]"]
    have a: "alerts = take (quota E 0) (qualifying E rows)"
      and d: "dbg = (if e_debug E then List.map_filter (row_debug E) ?S else [])"
      by auto
    from a have a': "alerts = List.map_filter (row_alert E) ?S"
      using qualifying_scanned [of "quota E 0" E rows, OF quota_ge_1] by (simp add: qualifying_def)
    show ?thesis
    proof (intro exI conjI)
      show "rows = ?S @ rest" by (rule r)
      show "alerts = List.map_filter (row_alert E) ?S" by (rule a')
      show "dbg = (if e_debug E then List.map_filter (row_debug E) ?S else [])" by (rule d)
    qed (rule rd)
  next
    case False
    then have big: "float_range \<le> max (e_lookback_days E) 1" by (simp only: not_less)
    from scan_overflow [OF big sc] have e: "alerts = []" "dbg = []" by simp_all
    show ?thesis
    proof (intro exI conjI)
      show "rows = [] @ rows" by simp
      show "alerts = List.map_filter (row_alert E) []" by (simp add: e List.map_filter_simps)
      show "dbg = (if e_debug E then List.map_filter (row_debug E) [] else [])"
        by (simp add: e List.map_filter_simps)
    qed (rule rd)
  qed
qed

theorem keep_decision_rule_witness:
  "scan_rows (env_shop 1) rows_shop [] [] = Inr ([alert_bolt], [debug_bolt])
   \<and> (\<exists>scanned rest. rows_shop = scanned @ rest
      \<and> [alert_bolt] = List.map_filter (row_alert (env_shop 1)) scanned
      \<and> [debug_bolt] = (if e_debug (env_shop 1) then List.map_filter (row_debug (env_shop 1)) scanned else [])
      \<and> (\<forall>r\<in>set scanned. \<forall>d. row_debug (env_shop 1) r = Some d \<longrightarrow>
            ((row_alert (env_shop 1) r \<noteq> None)
               = (0 < d_ads d \<and> 0 < d_threshold d \<and> d_stock d < d_threshold d))
          \<and> d_decision d = (if 0 < d_ads d \<and> 0 < d_threshold d \<and> d_stock d < d_threshold d
                             then ''keep'' else ''skip'')
          \<and> set (d_reason_if_skip d) =
               {s. (s = ''no_recent_sales'' \<and> d_ads d \<le> 0)
                 \<or> (s = ''zero_threshold'' \<and> d_threshold d \<le> 0)
                 \<or> (s = ''stock_not_below_threshold'' \<and> d_threshold d \<le> d_stock d)}
          \<and> (\<forall>a. row_alert (env_shop 1) r = Some a \<longrightarrow>
                 a_current_stock a = d_stock d \<and> a_threshold a = d_threshold d)))"
  by (intro conjI) (rule scan_shop_1, rule keep_decision_rule [OF scan_shop_1])

text \<open>
  \<^bold>\<open>C10.\<close> A \<^verbatim>\<open>warehouse_id\<close> parameter of \<^verbatim>\<open>"0"\<close> parses as the integer \<open>0\<close>, so the
  request is not rejected as an invalid warehouse id; the filter is applied only to a
  truthy id, so the inventory rows are those of all warehouses of the company and the
  whole response equals the response to the same request without \<^verbatim>\<open>warehouse_id\<close>.
\<close>

theorem warehouse_zero_is_no_filter:
  "target_warehouse_arg (Some ''0'') = Inr (Some 0)
   \<and> inv_rows db cid (Some 0) = inv_rows db cid None
   \<and> low_stock_alerts db now cid (args\<lparr>arg_warehouse_id := Some ''0''\<rparr>)
       = low_stock_alerts db now cid (args\<lparr>arg_warehouse_id := None\<rparr>)
   \<and> low_stock_alerts db now cid (args\<lparr>arg_warehouse_id := Some ''0''\<rparr>)
       \<noteq> BadRequest400 ''invalid_warehouse_id''"
proof -
  have "low_stock_alerts db now cid (args\<lparr>arg_warehouse_id := Some ''0''\<rparr>)
       \<noteq> BadRequest400 ''invalid_warehouse_id''"
    using bad_request_only_from_warehouse [of db now cid "args\<lparr>arg_warehouse_id := Some ''0''\<rparr>"]
    by (auto simp: target_warehouse_zero)
  then show ?thesis
    by (simp add: target_warehouse_zero inv_rows_def low_stock_alerts_def low_stock_alerts_with_def
          request_env_zero)
qed






end
